theory Spec2Isabelle
  imports Complex_Main
begin

section \<open>JavaScript numbers\<close>

text \<open>
  The slider computes with JavaScript numbers. The model keeps the finite values exact
  (a rational; rounding of the binary representation is not modelled, and every zero is
  the positive zero) and keeps the special values of the arithmetic: the two infinities
  and NaN, which a division by zero produces, and \<open>undefined\<close>, which an array read
  outside the array produces and which every arithmetic operator turns into NaN.
\<close>

datatype jsnum = Fin rat | PInf | NInf | NaN | Undefined

fun isNaN :: "jsnum \<Rightarrow> bool" where
  "isNaN NaN = True"
| "isNaN Undefined = True"
| "isNaN _ = False"

text \<open>\<open>a + b\<close>\<close>

fun jadd :: "jsnum \<Rightarrow> jsnum \<Rightarrow> jsnum" where
  "jadd (Fin a) (Fin b) = Fin (a + b)"
| "jadd (Fin a) PInf = PInf"
| "jadd PInf (Fin b) = PInf"
| "jadd PInf PInf = PInf"
| "jadd (Fin a) NInf = NInf"
| "jadd NInf (Fin b) = NInf"
| "jadd NInf NInf = NInf"
| "jadd _ _ = NaN"

text \<open>\<open>-a\<close>\<close>

fun jneg :: "jsnum \<Rightarrow> jsnum" where
  "jneg (Fin a) = Fin (- a)"
| "jneg PInf = NInf"
| "jneg NInf = PInf"
| "jneg _ = NaN"

text \<open>\<open>a - b\<close>\<close>

definition jsub :: "jsnum \<Rightarrow> jsnum \<Rightarrow> jsnum" where
  "jsub a b = jadd a (jneg b)"

text \<open>The sign of a product or quotient with an infinite operand.\<close>

definition signedInf :: "bool \<Rightarrow> jsnum" where
  "signedInf positive = (if positive then PInf else NInf)"

text \<open>\<open>a * b\<close>: an infinity times zero is NaN.\<close>

fun jmul :: "jsnum \<Rightarrow> jsnum \<Rightarrow> jsnum" where
  "jmul (Fin a) (Fin b) = Fin (a * b)"
| "jmul (Fin a) PInf = (if a = 0 then NaN else signedInf (0 < a))"
| "jmul (Fin a) NInf = (if a = 0 then NaN else signedInf (a < 0))"
| "jmul PInf (Fin b) = (if b = 0 then NaN else signedInf (0 < b))"
| "jmul NInf (Fin b) = (if b = 0 then NaN else signedInf (b < 0))"
| "jmul PInf PInf = PInf"
| "jmul NInf NInf = PInf"
| "jmul PInf NInf = NInf"
| "jmul NInf PInf = NInf"
| "jmul _ _ = NaN"

text \<open>
  \<open>a / b\<close>: a division by zero does not fail. It is NaN for \<open>0 / 0\<close> and an infinity
  with the sign of the dividend otherwise.
\<close>

fun jdiv :: "jsnum \<Rightarrow> jsnum \<Rightarrow> jsnum" where
  "jdiv (Fin a) (Fin b) =
     (if b \<noteq> 0 then Fin (a / b) else if a = 0 then NaN else signedInf (0 < a))"
| "jdiv (Fin a) PInf = Fin 0"
| "jdiv (Fin a) NInf = Fin 0"
| "jdiv PInf (Fin b) = signedInf (0 \<le> b)"
| "jdiv NInf (Fin b) = signedInf (b < 0)"
| "jdiv _ _ = NaN"

text \<open>The integer part of a rational, rounded towards zero.\<close>

definition trunc :: "rat \<Rightarrow> int" where
  "trunc q = (if 0 \<le> q then \<lfloor>q\<rfloor> else \<lceil>q\<rceil>)"

text \<open>\<open>a % b\<close>: the remainder has the sign of the dividend.\<close>

fun jmod :: "jsnum \<Rightarrow> jsnum \<Rightarrow> jsnum" where
  "jmod (Fin a) (Fin b) = (if b = 0 then NaN else Fin (a - b * of_int (trunc (a / b))))"
| "jmod (Fin a) PInf = Fin a"
| "jmod (Fin a) NInf = Fin a"
| "jmod _ _ = NaN"

text \<open>\<open>Math.round\<close>: the nearest integer, a half rounded up.\<close>

fun Math_round :: "jsnum \<Rightarrow> jsnum" where
  "Math_round (Fin a) = Fin (of_int \<lfloor>a + 1 / 2\<rfloor>)"
| "Math_round PInf = PInf"
| "Math_round NInf = NInf"
| "Math_round _ = NaN"

text \<open>\<open>a <= b\<close> and \<open>a < b\<close>: false as soon as one side is NaN.\<close>

fun jle :: "jsnum \<Rightarrow> jsnum \<Rightarrow> bool" where
  "jle (Fin a) (Fin b) = (a \<le> b)"
| "jle NInf (Fin b) = True"
| "jle NInf NInf = True"
| "jle NInf PInf = True"
| "jle (Fin a) PInf = True"
| "jle PInf PInf = True"
| "jle _ _ = False"

fun jlt :: "jsnum \<Rightarrow> jsnum \<Rightarrow> bool" where
  "jlt (Fin a) (Fin b) = (a < b)"
| "jlt NInf (Fin b) = True"
| "jlt NInf PInf = True"
| "jlt (Fin a) PInf = True"
| "jlt _ _ = False"

text \<open>\<open>a >= b\<close> and \<open>a > b\<close>\<close>

definition jge :: "jsnum \<Rightarrow> jsnum \<Rightarrow> bool" where
  "jge a b = jle b a"

definition jgt :: "jsnum \<Rightarrow> jsnum \<Rightarrow> bool" where
  "jgt a b = jlt b a"

text \<open>\<open>a === b\<close> and \<open>a !== b\<close>: NaN is not equal to anything, itself included.\<close>

definition strictEq :: "jsnum \<Rightarrow> jsnum \<Rightarrow> bool" where
  "strictEq a b = (a = b \<and> a \<noteq> NaN)"

definition strictNe :: "jsnum \<Rightarrow> jsnum \<Rightarrow> bool" where
  "strictNe a b = (\<not> strictEq a b)"

text \<open>\<open>Math.max(a, b)\<close> and \<open>Math.min(a, b)\<close>: NaN as soon as one argument is NaN.\<close>

definition Math_max :: "jsnum \<Rightarrow> jsnum \<Rightarrow> jsnum" where
  "Math_max a b = (if isNaN a \<or> isNaN b then NaN else if jle a b then b else a)"

definition Math_min :: "jsnum \<Rightarrow> jsnum \<Rightarrow> jsnum" where
  "Math_min a b = (if isNaN a \<or> isNaN b then NaN else if jle a b then a else b)"

text \<open>
  Modelled from the spec: \<open>clamp\<close> is imported from \<open>./utils\<close>, which is not among the
  source files. The spec says of it only that positions are "clamped to track bounds";
  the model is the usual worklet \<open>Math.min(Math.max(lowerBound, value), upperBound)\<close>,
  so the upper bound wins when the bounds cross.
\<close>

definition clamp :: "jsnum \<Rightarrow> jsnum \<Rightarrow> jsnum \<Rightarrow> jsnum" where
  "clamp v lowerBound upperBound = Math_min (Math_max lowerBound v) upperBound"

text \<open>
  \<open>arr[i]\<close>: the element when \<open>i\<close> is an index of the array, \<open>undefined\<close> otherwise.
\<close>

definition arrGet :: "jsnum list \<Rightarrow> jsnum \<Rightarrow> jsnum" where
  "arrGet arr i =
     (case i of
        Fin r \<Rightarrow>
          if of_int \<lfloor>r\<rfloor> = r \<and> 0 \<le> r \<and> nat \<lfloor>r\<rfloor> < length arr then arr ! nat \<lfloor>r\<rfloor>
          else Undefined
      | _ \<Rightarrow> Undefined)"

text \<open>A natural number as a JavaScript number.\<close>

definition num :: "nat \<Rightarrow> jsnum" where
  "num n = Fin (of_nat n)"

section \<open>Props and shared values\<close>

datatype HapticModeEnum = NONE | STEP | BOTH

datatype PanDirectionEnum = START | LEFT | RIGHT | END

text \<open>
  The props of \<open>Slider\<close> that the gesture and style code reads. An optional callback or
  shared value is a flag saying whether the caller supplied it. \<open>step\<close> is
  \<open>undefined\<close> or a count of intervals; \<open>minimumValue\<close> and \<open>maximumValue\<close> are
  shared values that the component only reads. \<open>snapToInteger\<close> is a prop of the second
  variant only, \<open>step\<close> and \<open>markWidth\<close> are used by the stepped variant only.
\<close>

record props =
  disable :: bool
  disableTapEvent :: bool
  disableTrackFollow :: bool
  hapticMode :: HapticModeEnum
  step :: "nat option"
  snapToInteger :: bool
  thumbWidth :: jsnum
  markWidth :: jsnum
  minimumValue :: jsnum
  maximumValue :: jsnum
  isScrubbingGiven :: bool
  panDirectionValueGiven :: bool
  onHapticFeedbackGiven :: bool
  onSlidingStartGiven :: bool
  onSlidingCompleteGiven :: bool
  onTapGiven :: bool
  onValueChangeGiven :: bool

text \<open>
  The calls handed to the JavaScript thread by \<open>runOnJS\<close>, in the order they are queued.
  \<open>SetBubbleText\<close> is the bubble's text update made by \<open>onSlideAcitve\<close> (the number
  shown, not its formatting); \<open>SetMarkStyles\<close> carries, for each mark, whether
  \<open>getMarkStyles\<close> found \<open>progress.value >= index\<close>.
\<close>

datatype call =
    OnSlidingStart
  | OnValueChange jsnum
  | SetBubbleText jsnum
  | OnSlidingComplete jsnum
  | OnHapticFeedback
  | OnTap
  | SetMarkStyles "bool list"

text \<open>
  The shared values of one slider, with the queue of calls. \<open>bubbleOpacity\<close> holds the
  target of the spring animation assigned to it.
\<close>

record slider =
  progress :: jsnum
  thumbValue :: jsnum
  bubbleOpacity :: jsnum
  width :: jsnum
  prevX :: jsnum
  markLeftArr :: "jsnum list"
  thumbIndex :: jsnum
  isTriggedHaptic :: bool
  isScrubbing :: bool
  panDirectionValue :: PanDirectionEnum
  calls :: "call list"

text \<open>\<open>step\<close> used as a condition: \<open>undefined\<close> and \<open>0\<close> are falsy.\<close>

definition stepTruthy :: "props \<Rightarrow> bool" where
  "stepTruthy p = (case step p of None \<Rightarrow> False | Some n \<Rightarrow> 0 < n)"

text \<open>\<open>step ?? 0\<close>\<close>

definition stepOrZero :: "props \<Rightarrow> nat" where
  "stepOrZero p = (case step p of None \<Rightarrow> 0 | Some n \<Rightarrow> n)"

section \<open>The stepped slider (src/slide.tsx)\<close>

definition getMarkStyles :: "props \<Rightarrow> slider \<Rightarrow> bool list" where
  "getMarkStyles p s = map (\<lambda>index. jge (progress s) (num index)) [0 ..< stepOrZero p + 1]"

definition sliderTotalValue :: "props \<Rightarrow> jsnum" where
  "sliderTotalValue p = jadd (maximumValue p) (minimumValue p)"

definition progressToValue :: "props \<Rightarrow> slider \<Rightarrow> jsnum \<Rightarrow> jsnum" where
  "progressToValue p s v =
     (if strictEq (sliderTotalValue p) (Fin 0) then Fin 0
      else jmul (jdiv v (sliderTotalValue p)) (width s))"

text \<open>The \<open>translateX\<close> of \<open>animatedThumbStyle\<close>.\<close>

definition animatedThumbStyle :: "props \<Rightarrow> slider \<Rightarrow> jsnum" where
  "animatedThumbStyle p s =
     (if disableTrackFollow p
      then clamp (thumbValue s) (Fin 0) (jsub (width s) (thumbWidth p))
      else clamp (jsub (progressToValue p s (progress s)) (thumbWidth p))
                 (jdiv (jneg (thumbWidth p)) (Fin 2))
                 (jsub (width s) (thumbWidth p)))"

definition shareValueToSeconds :: "props \<Rightarrow> slider \<Rightarrow> jsnum" where
  "shareValueToSeconds p s =
     (let sliderPercent =
            clamp (jadd (jdiv (thumbValue s) (jsub (width s) (thumbWidth p)))
                        (jdiv (minimumValue p) (sliderTotalValue p)))
                  (Fin 0) (Fin 1)
      in clamp (jmul sliderPercent (sliderTotalValue p)) (minimumValue p) (maximumValue p))"

definition xToProgress :: "props \<Rightarrow> slider \<Rightarrow> jsnum \<Rightarrow> jsnum" where
  "xToProgress p s x =
     (if stepTruthy p \<and> stepOrZero p \<le> length (markLeftArr s)
      then arrGet (markLeftArr s) (thumbIndex s)
      else jmul (jdiv x (jsub (width s) (thumbWidth p))) (sliderTotalValue p))"

text \<open>\<open>if (isScrubbing) isScrubbing.value = true\<close>\<close>

definition setScrubbing :: "props \<Rightarrow> slider \<Rightarrow> slider" where
  "setScrubbing p s = (if isScrubbingGiven p then s\<lparr>isScrubbing := True\<rparr> else s)"

text \<open>\<open>runOnJS(f)(...)\<close>: queue one call.\<close>

definition runOnJS :: "call \<Rightarrow> slider \<Rightarrow> slider" where
  "runOnJS c s = s\<lparr>calls := calls s @ [c]\<rparr>"

text \<open>\<open>onSlideAcitve(seconds)\<close>, queued by \<open>onActiveSlider\<close>.\<close>

definition onSlideAcitve :: "props \<Rightarrow> jsnum \<Rightarrow> slider \<Rightarrow> slider" where
  "onSlideAcitve p seconds s =
     runOnJS (SetBubbleText seconds)
       (if onValueChangeGiven p then runOnJS (OnValueChange seconds) s else s)"

text \<open>The position is at one of the two ends: \<open>x <= 0 || x >= width.value - thumbWidth\<close>.\<close>

definition atEdge :: "props \<Rightarrow> slider \<Rightarrow> jsnum \<Rightarrow> bool" where
  "atEdge p s x = (jle x (Fin 0) \<or> jge x (jsub (width s) (thumbWidth p)))"

text \<open>The haptic check of \<open>onActiveSlider\<close>.\<close>

definition hapticCheck :: "props \<Rightarrow> jsnum \<Rightarrow> slider \<Rightarrow> slider" where
  "hapticCheck p x s =
     (if atEdge p s x then
        (if \<not> isTriggedHaptic s \<and> hapticMode p = BOTH \<and> onHapticFeedbackGiven p
         then (runOnJS OnHapticFeedback s)\<lparr>isTriggedHaptic := True\<rparr>
         else s)
      else s\<lparr>isTriggedHaptic := False\<rparr>)"

definition onActiveSlider :: "props \<Rightarrow> slider \<Rightarrow> jsnum \<Rightarrow> slider" where
  "onActiveSlider p s x =
     (let s1 = setScrubbing p s;
          s2 = s1\<lparr>thumbValue := clamp x (Fin 0) (jsub (width s1) (thumbWidth p))\<rparr>;
          s3 = (if \<not> disableTrackFollow p then s2\<lparr>progress := xToProgress p s2 x\<rparr> else s2);
          s4 = hapticCheck p x s3;
          s5 = onSlideAcitve p (shareValueToSeconds p s4) s4
      in runOnJS (SetMarkStyles (getMarkStyles p s5)) s5)"

text \<open>
  The end of both release handlers: a progress with a fractional part is rounded, and
  \<open>onSlidingComplete\<close> is told the value.
\<close>

definition releaseSnap :: "props \<Rightarrow> slider \<Rightarrow> slider" where
  "releaseSnap p s =
     (if strictNe (jmod (progress s) (Fin 1)) (Fin 0) then
        (let roundedValue = Math_round (progress s);
             s1 = s\<lparr>progress := roundedValue\<rparr>
         in if onSlidingCompleteGiven p
            then runOnJS (SetMarkStyles (getMarkStyles p s1))
                   (runOnJS (OnSlidingComplete roundedValue) s1)
            else s1)
      else if onSlidingCompleteGiven p
      then runOnJS (OnSlidingComplete (shareValueToSeconds p s)) s
      else s)"

text \<open>\<open>onGestureEvent\<close>: the pan gesture's \<open>onStart\<close>, \<open>onUpdate\<close> and \<open>onEnd\<close>.\<close>

definition onStart :: "props \<Rightarrow> slider \<Rightarrow> slider" where
  "onStart p s =
     (if disable p then s
      else
        (let s1 = setScrubbing p s;
             s2 = (if panDirectionValueGiven p
                   then s1\<lparr>panDirectionValue := START, prevX := Fin 0\<rparr> else s1)
         in if onSlidingStartGiven p then runOnJS OnSlidingStart s2 else s2))"

definition onUpdate :: "props \<Rightarrow> slider \<Rightarrow> jsnum \<Rightarrow> slider" where
  "onUpdate p s x =
     (if disable p then s
      else
        (let s1 = (if panDirectionValueGiven p
                   then s\<lparr>panDirectionValue :=
                            (if jgt (jsub (prevX s) x) (Fin 0) then LEFT else RIGHT),
                          prevX := x\<rparr>
                   else s);
             s2 = s1\<lparr>bubbleOpacity := Fin 1\<rparr>
         in onActiveSlider p s2 x))"

definition onEnd :: "props \<Rightarrow> slider \<Rightarrow> jsnum \<Rightarrow> slider" where
  "onEnd p s x =
     (if disable p then s
      else
        (let s1 = setScrubbing p s;
             s2 = (if panDirectionValueGiven p then s1\<lparr>panDirectionValue := END\<rparr> else s1);
             s3 = s2\<lparr>bubbleOpacity := Fin 0\<rparr>;
             s4 = (if disableTrackFollow p then s3\<lparr>progress := xToProgress p s3 x\<rparr> else s3)
         in releaseSnap p s4))"

text \<open>\<open>onSingleTapEvent\<close>: the tap gesture's \<open>onEnd\<close>.\<close>

definition onSingleTapEvent :: "props \<Rightarrow> slider \<Rightarrow> jsnum \<Rightarrow> bool \<Rightarrow> slider" where
  "onSingleTapEvent p s x isFinished =
     (let s0 = (if onTapGiven p then runOnJS OnTap s else s)
      in if disable p \<or> disableTapEvent p then s0
         else
           (let s1 = (if isFinished then onActiveSlider p s0 x else s0);
                s2 = setScrubbing p s1;
                s3 = s2\<lparr>bubbleOpacity := Fin 0\<rparr>
            in releaseSnap p s3))"

text \<open>
  The reaction that sets \<open>markLeftArr\<close>: one entry for each of the \<open>step + 1\<close> marks.
\<close>

definition markLeft :: "props \<Rightarrow> slider \<Rightarrow> nat \<Rightarrow> nat \<Rightarrow> jsnum" where
  "markLeft p s n i =
     jsub (jsub (Math_round (jmul (width s) (jdiv (num i) (num n))))
                (jmul (jdiv (num i) (num n)) (markWidth p)))
          (Math_round (jdiv (thumbWidth p) (Fin 3)))"

definition markLeftArrData :: "props \<Rightarrow> slider \<Rightarrow> jsnum list" where
  "markLeftArrData p s =
     (if \<not> stepTruthy p then []
      else map (markLeft p s (stepOrZero p)) [0 ..< stepOrZero p + 1])"

definition markLeftArrReaction :: "props \<Rightarrow> slider \<Rightarrow> slider" where
  "markLeftArrReaction p s = s\<lparr>markLeftArr := markLeftArrData p s\<rparr>"

text \<open>\<open>arr.findIndex(pred)\<close>: the first index whose element satisfies, or \<open>-1\<close>.\<close>

fun findIndex :: "('a \<Rightarrow> bool) \<Rightarrow> 'a list \<Rightarrow> int" where
  "findIndex pred [] = - 1"
| "findIndex pred (v # vs) =
     (if pred v then 0 else (let r = findIndex pred vs in if r < 0 then - 1 else r + 1))"

text \<open>The reaction that sets \<open>thumbIndex\<close>.\<close>

definition thumbIndexReaction :: "props \<Rightarrow> slider \<Rightarrow> slider" where
  "thumbIndexReaction p s =
     (if isScrubbingGiven p \<and> isScrubbing s then s
      else if \<not> stepTruthy p then s
      else
        (let n = stepOrZero p;
             marksLeft = map (\<lambda>i. Math_round (jmul (width s) (jdiv (num i) (num n))))
                             [0 ..< n + 1];
             currentWidth =
               Math_round
                 (jmul (jdiv (jsub (progress s) (minimumValue p))
                             (jsub (maximumValue p) (minimumValue p)))
                       (width s));
             currentIndex = findIndex (\<lambda>v. jge v currentWidth) marksLeft
         in s\<lparr>thumbIndex := clamp (Fin (of_int currentIndex)) (Fin 0) (num n)\<rparr>))"

text \<open>The reaction that sets \<open>thumbValue\<close>.\<close>

definition thumbValueReaction :: "props \<Rightarrow> slider \<Rightarrow> slider" where
  "thumbValueReaction p s =
     (if isScrubbingGiven p \<and> isScrubbing s then s
      else if stepTruthy p then s
      else
        (let currentValue =
               jmul (jdiv (progress s) (jadd (minimumValue p) (maximumValue p))) (width s)
         in s\<lparr>thumbValue := clamp currentValue (Fin 0) (jsub (width s) (thumbWidth p))\<rparr>))"

text \<open>
  The \<open>left\<close> of the mark that the render loop draws at index \<open>i\<close>, for a measured
  slider width \<open>sliderWidth\<close>.
\<close>

definition renderMarkLeft :: "props \<Rightarrow> jsnum \<Rightarrow> nat \<Rightarrow> nat \<Rightarrow> jsnum" where
  "renderMarkLeft p sliderWidth n i =
     jsub (jmul sliderWidth (jdiv (num i) (num n))) (jmul (jdiv (num i) (num n)) (markWidth p))"

section \<open>The second variant (the unnamed source file)\<close>

text \<open>
  The second \<open>Slider\<close> has no \<open>step\<close>; it has \<open>snapToInteger\<close>. Its functions carry the
  suffix \<open>2\<close>. \<open>sliderTotalValue\<close>, \<open>onSlideAcitve\<close>, the haptic check and the pan
  gesture's \<open>onStart\<close> are the same text as in the stepped slider.
\<close>

definition progressToValue2 :: "props \<Rightarrow> slider \<Rightarrow> jsnum \<Rightarrow> jsnum" where
  "progressToValue2 p s v =
     (if strictEq (sliderTotalValue p) (Fin 0) then Fin 0
      else jmul (jdiv v (sliderTotalValue p)) (jsub (width s) (thumbWidth p)))"

definition animatedThumbStyle2 :: "props \<Rightarrow> slider \<Rightarrow> jsnum" where
  "animatedThumbStyle2 p s =
     (if disableTrackFollow p
      then clamp (thumbValue s) (Fin 0) (jsub (width s) (thumbWidth p))
      else clamp (progressToValue2 p s (progress s)) (Fin 0) (jsub (width s) (thumbWidth p)))"

definition shareValueToSeconds2 :: "props \<Rightarrow> slider \<Rightarrow> jsnum" where
  "shareValueToSeconds2 p s =
     (let sliderPercent =
            clamp (jadd (jdiv (thumbValue s) (jsub (width s) (thumbWidth p)))
                        (jdiv (minimumValue p) (sliderTotalValue p)))
                  (Fin 0) (Fin 1)
      in clamp (jmul sliderPercent (sliderTotalValue p)) (minimumValue p) (maximumValue p))"

definition xToProgress2 :: "props \<Rightarrow> slider \<Rightarrow> jsnum \<Rightarrow> jsnum" where
  "xToProgress2 p s x = jmul (jdiv x (jsub (width s) (thumbWidth p))) (sliderTotalValue p)"

definition onActiveSlider2 :: "props \<Rightarrow> slider \<Rightarrow> jsnum \<Rightarrow> slider" where
  "onActiveSlider2 p s x =
     (let s1 = setScrubbing p s;
          s2 = s1\<lparr>thumbValue := clamp x (Fin 0) (jsub (width s1) (thumbWidth p))\<rparr>;
          s3 = (if \<not> disableTrackFollow p then s2\<lparr>progress := xToProgress2 p s2 x\<rparr> else s2);
          s4 = hapticCheck p x s3
      in onSlideAcitve p (shareValueToSeconds2 p s4) s4)"

definition releaseSnap2 :: "props \<Rightarrow> slider \<Rightarrow> slider" where
  "releaseSnap2 p s =
     (if snapToInteger p \<and> strictNe (jmod (progress s) (Fin 1)) (Fin 0) then
        (let roundedValue = Math_round (progress s);
             s1 = s\<lparr>progress := roundedValue\<rparr>
         in if onSlidingCompleteGiven p then runOnJS (OnSlidingComplete roundedValue) s1
            else s1)
      else if onSlidingCompleteGiven p
      then runOnJS (OnSlidingComplete (shareValueToSeconds2 p s)) s
      else s)"

definition onUpdate2 :: "props \<Rightarrow> slider \<Rightarrow> jsnum \<Rightarrow> slider" where
  "onUpdate2 p s x =
     (if disable p then s
      else
        (let s1 = (if panDirectionValueGiven p
                   then s\<lparr>panDirectionValue :=
                            (if jgt (jsub (prevX s) x) (Fin 0) then LEFT else RIGHT),
                          prevX := x\<rparr>
                   else s);
             s2 = s1\<lparr>bubbleOpacity := Fin 1\<rparr>
         in onActiveSlider2 p s2 x))"

definition onEnd2 :: "props \<Rightarrow> slider \<Rightarrow> jsnum \<Rightarrow> slider" where
  "onEnd2 p s x =
     (if disable p then s
      else
        (let s1 = setScrubbing p s;
             s2 = (if panDirectionValueGiven p then s1\<lparr>panDirectionValue := END\<rparr> else s1);
             s3 = s2\<lparr>bubbleOpacity := Fin 0\<rparr>;
             s4 = (if disableTrackFollow p then s3\<lparr>progress := xToProgress2 p s3 x\<rparr> else s3)
         in releaseSnap2 p s4))"

definition onSingleTapEvent2 :: "props \<Rightarrow> slider \<Rightarrow> jsnum \<Rightarrow> bool \<Rightarrow> slider" where
  "onSingleTapEvent2 p s x isFinished =
     (let s0 = (if onTapGiven p then runOnJS OnTap s else s)
      in if disable p \<or> disableTapEvent p then s0
         else
           (let s1 = (if isFinished then onActiveSlider2 p s0 x else s0);
                s2 = setScrubbing p s1;
                s3 = s2\<lparr>bubbleOpacity := Fin 0\<rparr>
            in releaseSnap2 p s3))"

section \<open>Runs of drag updates\<close>

text \<open>The state after the pan gesture has delivered the positions \<open>xs\<close>, in order.\<close>

fun dragUpdates :: "props \<Rightarrow> slider \<Rightarrow> jsnum list \<Rightarrow> slider" where
  "dragUpdates p s [] = s"
| "dragUpdates p s (x # xs) = dragUpdates p (onUpdate p s x) xs"

fun dragUpdates2 :: "props \<Rightarrow> slider \<Rightarrow> jsnum list \<Rightarrow> slider" where
  "dragUpdates2 p s [] = s"
| "dragUpdates2 p s (x # xs) = dragUpdates2 p (onUpdate2 p s x) xs"

text \<open>How many times the haptic callback was queued.\<close>

definition hapticCount :: "slider \<Rightarrow> nat" where
  "hapticCount s = length (filter (\<lambda>c. c = OnHapticFeedback) (calls s))"

text \<open>
  The edge touches of a run of positions: a touch begins at a position that is at an end
  when the position before it was not. \<open>touching\<close> says whether the run starts while
  an end is already being touched.
\<close>

fun edgeTouches :: "(jsnum \<Rightarrow> bool) \<Rightarrow> bool \<Rightarrow> jsnum list \<Rightarrow> nat" where
  "edgeTouches edge touching [] = 0"
| "edgeTouches edge touching (x # xs) =
     (if edge x then (if touching then 0 else 1) + edgeTouches edge True xs
      else edgeTouches edge False xs)"

section \<open>Example configurations\<close>

text \<open>
  The props with the defaults of the source, bounds 0 and 10 and the callbacks
  \<open>onValueChange\<close>, \<open>onSlidingComplete\<close> and \<open>onTap\<close> supplied, and the shared
  values of a slider that was laid out 100 wide and has not been touched yet. The other
  examples change these props: haptic feedback at both ends, both bounds zero, and four
  steps with bounds 0 and 4.
\<close>

definition exampleProps :: props where
  "exampleProps =
     \<lparr>disable = False, disableTapEvent = False, disableTrackFollow = False,
      hapticMode = NONE, step = None, snapToInteger = False,
      thumbWidth = Fin 15, markWidth = Fin 4, minimumValue = Fin 0, maximumValue = Fin 10,
      isScrubbingGiven = False, panDirectionValueGiven = False, onHapticFeedbackGiven = False,
      onSlidingStartGiven = False, onSlidingCompleteGiven = True, onTapGiven = True,
      onValueChangeGiven = True\<rparr>"

definition exampleSlider :: slider where
  "exampleSlider =
     \<lparr>progress = Fin 0, thumbValue = Fin 0, bubbleOpacity = Fin 0, width = Fin 100,
      prevX = Fin 0, markLeftArr = [], thumbIndex = Fin 0, isTriggedHaptic = False,
      isScrubbing = False, panDirectionValue = START, calls = []\<rparr>"

definition hapticProps :: props where
  "hapticProps = exampleProps\<lparr>hapticMode := BOTH, onHapticFeedbackGiven := True\<rparr>"

definition zeroProps :: props where
  "zeroProps = exampleProps\<lparr>maximumValue := Fin 0\<rparr>"

text \<open>
  The slider with four steps, as it is once the reactions have set \<open>markLeftArr\<close> and
  \<open>thumbIndex\<close> after the layout.
\<close>

definition steppedProps :: props where
  "steppedProps = exampleProps\<lparr>step := Some 4, maximumValue := Fin 4\<rparr>"

definition steppedSlider :: slider where
  "steppedSlider =
     thumbIndexReaction steppedProps (markLeftArrReaction steppedProps exampleSlider)"

section \<open>The mark nearest to a position\<close>

text \<open>
  What "the nearest mark" and "the value of a mark" mean: the distance of a mark from a
  position, the index of a mark at the least distance, and the value at which the
  reaction that sets \<open>thumbIndex\<close> places mark \<open>i\<close> of \<open>n\<close> between the bounds.
\<close>

definition markDistance :: "jsnum \<Rightarrow> jsnum \<Rightarrow> jsnum" where
  "markDistance x m = (let d = jsub m x in if jlt d (Fin 0) then jneg d else d)"

fun nearestMark :: "jsnum \<Rightarrow> jsnum list \<Rightarrow> nat" where
  "nearestMark x [] = 0"
| "nearestMark x [m] = 0"
| "nearestMark x (m # ms) =
     (let j = nearestMark x ms
      in if jle (markDistance x m) (markDistance x (ms ! j)) then 0 else Suc j)"

definition markValue :: "props \<Rightarrow> nat \<Rightarrow> nat \<Rightarrow> jsnum" where
  "markValue p n i =
     jadd (minimumValue p)
          (jmul (jdiv (num i) (num n)) (jsub (maximumValue p) (minimumValue p)))"

section \<open>What the handlers leave alone\<close>

lemma runOnJS_simps [simp]:
  "progress (runOnJS c s) = progress s"
  "thumbValue (runOnJS c s) = thumbValue s"
  "bubbleOpacity (runOnJS c s) = bubbleOpacity s"
  "width (runOnJS c s) = width s"
  "markLeftArr (runOnJS c s) = markLeftArr s"
  "thumbIndex (runOnJS c s) = thumbIndex s"
  "isTriggedHaptic (runOnJS c s) = isTriggedHaptic s"
  "calls (runOnJS c s) = calls s @ [c]"
  by (simp_all add: runOnJS_def)

lemma setScrubbing_simps [simp]:
  "progress (setScrubbing p s) = progress s"
  "thumbValue (setScrubbing p s) = thumbValue s"
  "bubbleOpacity (setScrubbing p s) = bubbleOpacity s"
  "width (setScrubbing p s) = width s"
  "markLeftArr (setScrubbing p s) = markLeftArr s"
  "thumbIndex (setScrubbing p s) = thumbIndex s"
  "isTriggedHaptic (setScrubbing p s) = isTriggedHaptic s"
  "calls (setScrubbing p s) = calls s"
  by (simp_all add: setScrubbing_def)

lemma onSlideAcitve_simps [simp]:
  "progress (onSlideAcitve p v s) = progress s"
  "thumbValue (onSlideAcitve p v s) = thumbValue s"
  "bubbleOpacity (onSlideAcitve p v s) = bubbleOpacity s"
  "width (onSlideAcitve p v s) = width s"
  "markLeftArr (onSlideAcitve p v s) = markLeftArr s"
  "thumbIndex (onSlideAcitve p v s) = thumbIndex s"
  "isTriggedHaptic (onSlideAcitve p v s) = isTriggedHaptic s"
  by (simp_all add: onSlideAcitve_def)

lemma onSlideAcitve_calls:
  "calls (onSlideAcitve p v s) =
     calls s @ (if onValueChangeGiven p then [OnValueChange v] else []) @ [SetBubbleText v]"
  by (simp add: onSlideAcitve_def)

lemma hapticCheck_simps [simp]:
  "progress (hapticCheck p x s) = progress s"
  "thumbValue (hapticCheck p x s) = thumbValue s"
  "bubbleOpacity (hapticCheck p x s) = bubbleOpacity s"
  "width (hapticCheck p x s) = width s"
  "markLeftArr (hapticCheck p x s) = markLeftArr s"
  "thumbIndex (hapticCheck p x s) = thumbIndex s"
  by (simp_all add: hapticCheck_def)

lemma atEdge_cong: "width s' = width s \<Longrightarrow> atEdge p s' x = atEdge p s x"
  by (simp add: atEdge_def)

lemma xToProgress_cong:
  "width s' = width s \<Longrightarrow> markLeftArr s' = markLeftArr s \<Longrightarrow> thumbIndex s' = thumbIndex s
   \<Longrightarrow> xToProgress p s' x = xToProgress p s x"
  by (simp add: xToProgress_def)

lemma onActiveSlider_frame [simp]:
  "width (onActiveSlider p s x) = width s"
  "markLeftArr (onActiveSlider p s x) = markLeftArr s"
  "thumbIndex (onActiveSlider p s x) = thumbIndex s"
  "bubbleOpacity (onActiveSlider p s x) = bubbleOpacity s"
  "thumbValue (onActiveSlider p s x) = clamp x (Fin 0) (jsub (width s) (thumbWidth p))"
  by (simp_all add: onActiveSlider_def Let_def)

lemma onActiveSlider_progress:
  "progress (onActiveSlider p s x) =
     (if disableTrackFollow p then progress s else xToProgress p s x)"
  by (simp add: onActiveSlider_def Let_def xToProgress_def)

lemma onActiveSlider2_frame [simp]:
  "width (onActiveSlider2 p s x) = width s"
  "markLeftArr (onActiveSlider2 p s x) = markLeftArr s"
  "thumbIndex (onActiveSlider2 p s x) = thumbIndex s"
  "bubbleOpacity (onActiveSlider2 p s x) = bubbleOpacity s"
  "thumbValue (onActiveSlider2 p s x) = clamp x (Fin 0) (jsub (width s) (thumbWidth p))"
  by (simp_all add: onActiveSlider2_def Let_def)

lemma onActiveSlider2_progress:
  "progress (onActiveSlider2 p s x) =
     (if disableTrackFollow p then progress s else xToProgress2 p s x)"
  by (simp add: onActiveSlider2_def Let_def xToProgress2_def)

lemma onUpdate_frame [simp]:
  "width (onUpdate p s x) = width s"
  "markLeftArr (onUpdate p s x) = markLeftArr s"
  "thumbIndex (onUpdate p s x) = thumbIndex s"
  by (simp_all add: onUpdate_def Let_def)

lemma onUpdate2_frame [simp]:
  "width (onUpdate2 p s x) = width s"
  "markLeftArr (onUpdate2 p s x) = markLeftArr s"
  "thumbIndex (onUpdate2 p s x) = thumbIndex s"
  by (simp_all add: onUpdate2_def Let_def)

lemma onUpdate_progress:
  "disableTrackFollow p \<Longrightarrow> progress (onUpdate p s x) = progress s"
  by (simp add: onUpdate_def Let_def onActiveSlider_progress)

lemma onUpdate2_progress:
  "disableTrackFollow p \<Longrightarrow> progress (onUpdate2 p s x) = progress s"
  by (simp add: onUpdate2_def Let_def onActiveSlider2_progress)

lemma dragUpdates_frame [simp]:
  "width (dragUpdates p s xs) = width s"
  "markLeftArr (dragUpdates p s xs) = markLeftArr s"
  "thumbIndex (dragUpdates p s xs) = thumbIndex s"
  by (induction xs arbitrary: s) simp_all

lemma dragUpdates2_frame [simp]:
  "width (dragUpdates2 p s xs) = width s"
  "markLeftArr (dragUpdates2 p s xs) = markLeftArr s"
  "thumbIndex (dragUpdates2 p s xs) = thumbIndex s"
  by (induction xs arbitrary: s) simp_all

lemma dragUpdates_progress:
  "disableTrackFollow p \<Longrightarrow> progress (dragUpdates p s xs) = progress s"
  by (induction xs arbitrary: s) (simp_all add: onUpdate_progress)

lemma dragUpdates2_progress:
  "disableTrackFollow p \<Longrightarrow> progress (dragUpdates2 p s xs) = progress s"
  by (induction xs arbitrary: s) (simp_all add: onUpdate2_progress)

text \<open>
  The three reactions run between the events of a gesture. They write \<open>markLeftArr\<close>,
  \<open>thumbIndex\<close> and \<open>thumbValue\<close>, and nothing that the runs of drag updates below
  are about: not \<open>progress\<close>, not \<open>width\<close>, not the haptic flag, not the queue of
  calls.
\<close>

lemma reactions_frame:
  "progress (markLeftArrReaction p s) = progress s"
  "progress (thumbIndexReaction p s) = progress s"
  "progress (thumbValueReaction p s) = progress s"
  "width (markLeftArrReaction p s) = width s"
  "width (thumbIndexReaction p s) = width s"
  "width (thumbValueReaction p s) = width s"
  "isTriggedHaptic (markLeftArrReaction p s) = isTriggedHaptic s"
  "isTriggedHaptic (thumbIndexReaction p s) = isTriggedHaptic s"
  "isTriggedHaptic (thumbValueReaction p s) = isTriggedHaptic s"
  "calls (markLeftArrReaction p s) = calls s"
  "calls (thumbIndexReaction p s) = calls s"
  "calls (thumbValueReaction p s) = calls s"
  by (simp_all add: markLeftArrReaction_def thumbIndexReaction_def thumbValueReaction_def Let_def)

text \<open>The value that a release leaves in progress.\<close>

lemma releaseSnap_progress:
  "progress (releaseSnap p s) =
     (if strictNe (jmod (progress s) (Fin 1)) (Fin 0) then Math_round (progress s)
      else progress s)"
  by (simp add: releaseSnap_def Let_def)

lemma releaseSnap2_progress:
  "progress (releaseSnap2 p s) =
     (if snapToInteger p \<and> strictNe (jmod (progress s) (Fin 1)) (Fin 0)
      then Math_round (progress s) else progress s)"
  by (simp add: releaseSnap2_def Let_def)

lemma onEnd_progress:
  "\<not> disable p \<Longrightarrow>
   progress (onEnd p s x) =
     (let v = (if disableTrackFollow p then xToProgress p s x else progress s)
      in if strictNe (jmod v (Fin 1)) (Fin 0) then Math_round v else v)"
  by (simp add: onEnd_def Let_def releaseSnap_progress xToProgress_def)

lemma onEnd2_progress:
  "\<not> disable p \<Longrightarrow>
   progress (onEnd2 p s x) =
     (let v = (if disableTrackFollow p then xToProgress2 p s x else progress s)
      in if snapToInteger p \<and> strictNe (jmod v (Fin 1)) (Fin 0) then Math_round v else v)"
  by (auto simp add: onEnd2_def Let_def releaseSnap2_progress xToProgress2_def)

section \<open>The haptic callback\<close>

lemma hapticCheck_count:
  "hapticCount (hapticCheck p x s) =
     hapticCount s +
       (if atEdge p s x \<and> \<not> isTriggedHaptic s \<and> hapticMode p = BOTH \<and> onHapticFeedbackGiven p
        then 1 else 0)"
  by (simp add: hapticCheck_def hapticCount_def runOnJS_def)

lemma hapticCheck_flag:
  "hapticMode p = BOTH \<Longrightarrow> onHapticFeedbackGiven p \<Longrightarrow>
   isTriggedHaptic (hapticCheck p x s) = atEdge p s x"
  by (simp add: hapticCheck_def)

lemma hapticCheck_flag_kept:
  "isTriggedHaptic s \<Longrightarrow> atEdge p s x \<Longrightarrow> isTriggedHaptic (hapticCheck p x s)"
  by (simp add: hapticCheck_def)

lemma hapticCount_simps [simp]:
  "hapticCount (runOnJS c s) = hapticCount s + (if c = OnHapticFeedback then 1 else 0)"
  "hapticCount (setScrubbing p s) = hapticCount s"
  "hapticCount (onSlideAcitve p v s) = hapticCount s"
  "hapticCount (s\<lparr>thumbValue := a\<rparr>) = hapticCount s"
  "hapticCount (s\<lparr>progress := a\<rparr>) = hapticCount s"
  "hapticCount (s\<lparr>bubbleOpacity := a\<rparr>) = hapticCount s"
  "hapticCount (s\<lparr>prevX := a\<rparr>) = hapticCount s"
  "hapticCount (s\<lparr>panDirectionValue := d\<rparr>) = hapticCount s"
  "hapticCount (s\<lparr>isTriggedHaptic := b\<rparr>) = hapticCount s"
  "hapticCount (s\<lparr>isScrubbing := b\<rparr>) = hapticCount s"
  by (simp_all add: hapticCount_def runOnJS_def setScrubbing_def onSlideAcitve_def)

lemma hapticCheck_cong:
  "width s' = width s \<Longrightarrow> isTriggedHaptic s' = isTriggedHaptic s \<Longrightarrow>
   hapticCount s' = hapticCount s \<Longrightarrow>
   hapticCount (hapticCheck p x s') = hapticCount (hapticCheck p x s)
   \<and> isTriggedHaptic (hapticCheck p x s') = isTriggedHaptic (hapticCheck p x s)"
  by (auto simp add: hapticCheck_def atEdge_def)

lemma onActiveSlider_haptic:
  "hapticCount (onActiveSlider p s x) = hapticCount (hapticCheck p x s)
   \<and> isTriggedHaptic (onActiveSlider p s x) = isTriggedHaptic (hapticCheck p x s)"
proof -
  define s3 where
    "s3 = (let s1 = setScrubbing p s;
               s2 = s1\<lparr>thumbValue := clamp x (Fin 0) (jsub (width s1) (thumbWidth p))\<rparr>
           in if \<not> disableTrackFollow p then s2\<lparr>progress := xToProgress p s2 x\<rparr> else s2)"
  have "width s3 = width s" "isTriggedHaptic s3 = isTriggedHaptic s" "hapticCount s3 = hapticCount s"
    by (simp_all add: s3_def Let_def setScrubbing_def)
  then have "hapticCount (hapticCheck p x s3) = hapticCount (hapticCheck p x s)
     \<and> isTriggedHaptic (hapticCheck p x s3) = isTriggedHaptic (hapticCheck p x s)"
    by (rule hapticCheck_cong)
  moreover have "onActiveSlider p s x =
      (let s4 = hapticCheck p x s3; s5 = onSlideAcitve p (shareValueToSeconds p s4) s4
       in runOnJS (SetMarkStyles (getMarkStyles p s5)) s5)"
    by (simp add: onActiveSlider_def s3_def Let_def)
  ultimately show ?thesis
    by (simp add: Let_def)
qed

lemma onActiveSlider2_haptic:
  "hapticCount (onActiveSlider2 p s x) = hapticCount (hapticCheck p x s)
   \<and> isTriggedHaptic (onActiveSlider2 p s x) = isTriggedHaptic (hapticCheck p x s)"
proof -
  define s3 where
    "s3 = (let s1 = setScrubbing p s;
               s2 = s1\<lparr>thumbValue := clamp x (Fin 0) (jsub (width s1) (thumbWidth p))\<rparr>
           in if \<not> disableTrackFollow p then s2\<lparr>progress := xToProgress2 p s2 x\<rparr> else s2)"
  have "width s3 = width s" "isTriggedHaptic s3 = isTriggedHaptic s" "hapticCount s3 = hapticCount s"
    by (simp_all add: s3_def Let_def setScrubbing_def)
  then have "hapticCount (hapticCheck p x s3) = hapticCount (hapticCheck p x s)
     \<and> isTriggedHaptic (hapticCheck p x s3) = isTriggedHaptic (hapticCheck p x s)"
    by (rule hapticCheck_cong)
  moreover have "onActiveSlider2 p s x =
      (let s4 = hapticCheck p x s3 in onSlideAcitve p (shareValueToSeconds2 p s4) s4)"
    by (simp add: onActiveSlider2_def s3_def Let_def)
  ultimately show ?thesis
    by (simp add: Let_def)
qed

lemma onUpdate_haptic:
  assumes "\<not> disable p"
  shows "hapticCount (onUpdate p s x) = hapticCount (hapticCheck p x s)
   \<and> isTriggedHaptic (onUpdate p s x) = isTriggedHaptic (hapticCheck p x s)"
proof -
  define s2 where
    "s2 = (let s1 = (if panDirectionValueGiven p
                   then s\<lparr>panDirectionValue :=
                            (if jgt (jsub (prevX s) x) (Fin 0) then LEFT else RIGHT),
                          prevX := x\<rparr>
                   else s)
           in s1\<lparr>bubbleOpacity := Fin 1\<rparr>)"
  have "width s2 = width s" "isTriggedHaptic s2 = isTriggedHaptic s" "hapticCount s2 = hapticCount s"
    by (simp_all add: s2_def Let_def)
  then have "hapticCount (hapticCheck p x s2) = hapticCount (hapticCheck p x s)
     \<and> isTriggedHaptic (hapticCheck p x s2) = isTriggedHaptic (hapticCheck p x s)"
    by (rule hapticCheck_cong)
  moreover have "onUpdate p s x = onActiveSlider p s2 x"
    using assms by (simp add: onUpdate_def s2_def Let_def)
  ultimately show ?thesis
    by (simp add: onActiveSlider_haptic)
qed

lemma onUpdate2_haptic:
  assumes "\<not> disable p"
  shows "hapticCount (onUpdate2 p s x) = hapticCount (hapticCheck p x s)
   \<and> isTriggedHaptic (onUpdate2 p s x) = isTriggedHaptic (hapticCheck p x s)"
proof -
  define s2 where
    "s2 = (let s1 = (if panDirectionValueGiven p
                   then s\<lparr>panDirectionValue :=
                            (if jgt (jsub (prevX s) x) (Fin 0) then LEFT else RIGHT),
                          prevX := x\<rparr>
                   else s)
           in s1\<lparr>bubbleOpacity := Fin 1\<rparr>)"
  have "width s2 = width s" "isTriggedHaptic s2 = isTriggedHaptic s" "hapticCount s2 = hapticCount s"
    by (simp_all add: s2_def Let_def)
  then have "hapticCount (hapticCheck p x s2) = hapticCount (hapticCheck p x s)
     \<and> isTriggedHaptic (hapticCheck p x s2) = isTriggedHaptic (hapticCheck p x s)"
    by (rule hapticCheck_cong)
  moreover have "onUpdate2 p s x = onActiveSlider2 p s2 x"
    using assms by (simp add: onUpdate2_def s2_def Let_def)
  ultimately show ?thesis
    by (simp add: onActiveSlider2_haptic)
qed

lemma edgeTouches_cong:
  "(\<And>x. e x = e' x) \<Longrightarrow> edgeTouches e t xs = edgeTouches e' t xs"
  by (induction xs arbitrary: t) simp_all

lemma dragUpdates_haptic:
  assumes "hapticMode p = BOTH" "onHapticFeedbackGiven p" "\<not> disable p"
  shows "hapticCount (dragUpdates p s xs) =
           hapticCount s + edgeTouches (atEdge p s) (isTriggedHaptic s) xs"
proof (induction xs arbitrary: s)
  case Nil
  show ?case by simp
next
  case (Cons x xs)
  have e: "edgeTouches (atEdge p (onUpdate p s x)) t xs = edgeTouches (atEdge p s) t xs" for t
    by (rule edgeTouches_cong) (simp add: atEdge_def)
  show ?case
    using assms
    by (simp add: Cons.IH e onUpdate_haptic hapticCheck_count hapticCheck_flag)
qed

lemma dragUpdates2_haptic:
  assumes "hapticMode p = BOTH" "onHapticFeedbackGiven p" "\<not> disable p"
  shows "hapticCount (dragUpdates2 p s xs) =
           hapticCount s + edgeTouches (atEdge p s) (isTriggedHaptic s) xs"
proof (induction xs arbitrary: s)
  case Nil
  show ?case by simp
next
  case (Cons x xs)
  have e: "edgeTouches (atEdge p (onUpdate2 p s x)) t xs = edgeTouches (atEdge p s) t xs" for t
    by (rule edgeTouches_cong) (simp add: atEdge_def)
  show ?case
    using assms
    by (simp add: Cons.IH e onUpdate2_haptic hapticCheck_count hapticCheck_flag)
qed

lemma dragUpdates_disabled: "disable p \<Longrightarrow> dragUpdates p s xs = s"
  by (induction xs) (simp_all add: onUpdate_def)

lemma dragUpdates2_disabled: "disable p \<Longrightarrow> dragUpdates2 p s xs = s"
  by (induction xs) (simp_all add: onUpdate2_def)

lemma edgeTouches_all_edge:
  "\<forall>x \<in> set xs. e x \<Longrightarrow> edgeTouches e t xs = (if t \<or> xs = [] then 0 else 1)"
  by (induction xs arbitrary: t) auto

lemma onUpdate_flag_kept:
  "isTriggedHaptic s \<Longrightarrow> atEdge p s x \<Longrightarrow> isTriggedHaptic (onUpdate p s x)"
  by (cases "disable p") (simp_all add: onUpdate_haptic hapticCheck_flag_kept, simp add: onUpdate_def)

lemma dragUpdates_flag_kept:
  "isTriggedHaptic s \<Longrightarrow> \<forall>x \<in> set xs. atEdge p s x \<Longrightarrow> isTriggedHaptic (dragUpdates p s xs)"
proof (induction xs arbitrary: s)
  case Nil
  then show ?case by simp
next
  case (Cons x xs)
  have "atEdge p (onUpdate p s x) = atEdge p s"
    by (rule ext) (simp add: atEdge_def)
  with Cons show ?case
    by (simp add: onUpdate_flag_kept)
qed

text \<open>
  C5. With \<open>hapticMode\<close> \<open>both\<close> and \<open>onHapticFeedback\<close> supplied, a run of drag
  updates queues the haptic callback at most once for each edge touch, and exactly once
  when the slider is enabled (in the second variant as well). In particular, while every update of the run is at an end
  (\<open>x <= 0\<close> or \<open>x >= width - thumbWidth\<close>) the callback is queued at most once, and
  not at all when the flag \<open>isTriggedHaptic\<close> is already set, which then stays set:
  only an update away from the ends clears it.
\<close>

theorem haptic_once_per_edge_touch:
  assumes "hapticMode p = BOTH" "onHapticFeedbackGiven p"
  shows "hapticCount (dragUpdates p s xs)
           \<le> hapticCount s + edgeTouches (atEdge p s) (isTriggedHaptic s) xs
    \<and> (\<not> disable p \<longrightarrow>
         hapticCount (dragUpdates p s xs)
           = hapticCount s + edgeTouches (atEdge p s) (isTriggedHaptic s) xs
         \<and> hapticCount (dragUpdates2 p s xs)
           = hapticCount s + edgeTouches (atEdge p s) (isTriggedHaptic s) xs)
    \<and> ((\<forall>x \<in> set xs. atEdge p s x) \<longrightarrow> hapticCount (dragUpdates p s xs) \<le> hapticCount s + 1)
    \<and> ((\<forall>x \<in> set xs. atEdge p s x) \<and> isTriggedHaptic s \<longrightarrow>
         hapticCount (dragUpdates p s xs) = hapticCount s
         \<and> isTriggedHaptic (dragUpdates p s xs))"
proof -
  let ?e = "edgeTouches (atEdge p s) (isTriggedHaptic s) xs"
  have eq: "\<not> disable p \<Longrightarrow> hapticCount (dragUpdates p s xs) = hapticCount s + ?e"
    using assms by (rule dragUpdates_haptic)
  have eq2: "\<not> disable p \<Longrightarrow> hapticCount (dragUpdates2 p s xs) = hapticCount s + ?e"
    using assms by (rule dragUpdates2_haptic)
  have le: "hapticCount (dragUpdates p s xs) \<le> hapticCount s + ?e"
    by (cases "disable p") (simp_all add: eq dragUpdates_disabled)
  have all: "(\<forall>x \<in> set xs. atEdge p s x) \<Longrightarrow> ?e = (if isTriggedHaptic s \<or> xs = [] then 0 else 1)"
    by (rule edgeTouches_all_edge)
  show ?thesis
    using le eq eq2 all dragUpdates_flag_kept [of s xs p] dragUpdates_disabled [of p s xs]
    by (cases "disable p") auto
qed

theorem haptic_once_per_edge_touch_witness:
  "hapticMode hapticProps = BOTH \<and> onHapticFeedbackGiven hapticProps
   \<and> hapticCount (dragUpdates hapticProps exampleSlider [Fin 0, Fin (- 3), Fin 40, Fin 85, Fin 90]) = 2"
  using haptic_once_per_edge_touch [of hapticProps exampleSlider "[Fin 0, Fin (- 3), Fin 40, Fin 85, Fin 90]"]
  by (simp add: hapticProps_def exampleProps_def exampleSlider_def atEdge_def jge_def jsub_def
      hapticCount_def)

section \<open>The two variants\<close>

text \<open>
  C8. With \<open>step\<close> unset, \<open>xToProgress\<close> and \<open>shareValueToSeconds\<close> of the stepped
  slider return what the functions of the same names in the second variant return, for
  every position, width, thumb width and bounds.
\<close>

theorem variants_agree_without_step: "step p = None \<Longrightarrow>
   xToProgress p s x = xToProgress2 p s x \<and> shareValueToSeconds p s = shareValueToSeconds2 p s"
  by (simp add: xToProgress_def xToProgress2_def stepTruthy_def shareValueToSeconds_def
      shareValueToSeconds2_def)

theorem variants_agree_without_step_witness: "step exampleProps = None
   \<and> xToProgress exampleProps exampleSlider (Fin 34) = Fin 4
   \<and> xToProgress2 exampleProps exampleSlider (Fin 34) = Fin 4
   \<and> shareValueToSeconds exampleProps exampleSlider
       = shareValueToSeconds2 exampleProps exampleSlider"
  using variants_agree_without_step [of exampleProps exampleSlider "Fin 34"]
  by (simp add: exampleProps_def exampleSlider_def xToProgress2_def jsub_def sliderTotalValue_def)

section \<open>A disabled slider\<close>

text \<open>
  C9. When \<open>disable\<close> is true, the pan gesture's start, update and end leave every
  shared value and the queue of calls as they were, in both variants; a tap leaves the
  shared values as they were and queues nothing but \<open>onTap\<close>, when that callback is
  supplied. So \<open>progress\<close>, \<open>thumbValue\<close> and \<open>bubbleOpacity\<close> do not change and none
  of \<open>onSlidingStart\<close>, \<open>onValueChange\<close>, \<open>onSlidingComplete\<close> and
  \<open>onHapticFeedback\<close> is called.
\<close>

theorem disabled_slider_ignores_gestures:
  assumes "disable p"
  shows "onStart p s = s \<and> onUpdate p s x = s \<and> onEnd p s x = s
    \<and> onUpdate2 p s x = s \<and> onEnd2 p s x = s
    \<and> onSingleTapEvent p s x fin = s\<lparr>calls := calls s @ (if onTapGiven p then [OnTap] else [])\<rparr>
    \<and> onSingleTapEvent2 p s x fin = s\<lparr>calls := calls s @ (if onTapGiven p then [OnTap] else [])\<rparr>"
  using assms
  by (simp add: onStart_def onUpdate_def onEnd_def onUpdate2_def onEnd2_def
      onSingleTapEvent_def onSingleTapEvent2_def runOnJS_def)

theorem disabled_slider_ignores_gestures_witness:
  "disable (exampleProps\<lparr>disable := True\<rparr>)
   \<and> onUpdate (exampleProps\<lparr>disable := True\<rparr>) exampleSlider (Fin 40) = exampleSlider
   \<and> calls (onSingleTapEvent (exampleProps\<lparr>disable := True\<rparr>) exampleSlider (Fin 40) True)
       = [OnTap]"
  using disabled_slider_ignores_gestures [of "exampleProps\<lparr>disable := True\<rparr>" exampleSlider "Fin 40" True]
  by (simp add: exampleProps_def exampleSlider_def)

section \<open>A slider whose track does not follow the thumb\<close>

text \<open>
  When \<open>disableTrackFollow\<close> is true, a run of drag updates leaves \<open>progress\<close> as it
  was, while each update of an enabled slider assigns the clamped position to
  \<open>thumbValue\<close>. The pan gesture's end then assigns to \<open>progress\<close> what \<open>xToProgress\<close>
  returns for the release, rounded when it has a fractional part (in the second variant,
  when \<open>snapToInteger\<close> is set as well), whatever the updates before it were.
\<close>

lemma pan_end_progress:
  assumes "disableTrackFollow p"
  shows "progress (dragUpdates p s xs) = progress s
    \<and> progress (dragUpdates2 p s xs) = progress s
    \<and> (\<not> disable p \<longrightarrow>
         thumbValue (onUpdate p s x) = clamp x (Fin 0) (jsub (width s) (thumbWidth p))
         \<and> thumbValue (onUpdate2 p s x) = clamp x (Fin 0) (jsub (width s) (thumbWidth p))
         \<and> progress (onEnd p (dragUpdates p s xs) y) =
             (let v = xToProgress p s y
              in if strictNe (jmod v (Fin 1)) (Fin 0) then Math_round v else v)
         \<and> progress (onEnd2 p (dragUpdates2 p s xs) y) =
             (let v = xToProgress2 p s y
              in if snapToInteger p \<and> strictNe (jmod v (Fin 1)) (Fin 0) then Math_round v
                 else v))"
proof -
  have u: "\<not> disable p \<Longrightarrow>
      thumbValue (onUpdate p s x) = clamp x (Fin 0) (jsub (width s) (thumbWidth p))"
    by (simp add: onUpdate_def Let_def)
  have u2: "\<not> disable p \<Longrightarrow>
      thumbValue (onUpdate2 p s x) = clamp x (Fin 0) (jsub (width s) (thumbWidth p))"
    by (simp add: onUpdate2_def Let_def)
  have x1: "xToProgress p (dragUpdates p s xs) y = xToProgress p s y"
    by (rule xToProgress_cong) simp_all
  have x2: "xToProgress2 p (dragUpdates2 p s xs) y = xToProgress2 p s y"
    by (simp add: xToProgress2_def)
  show ?thesis
    using assms u u2
    by (simp add: dragUpdates_progress dragUpdates2_progress onEnd_progress onEnd2_progress x1 x2)
qed

lemma pan_end_progress_example:
  "disableTrackFollow (exampleProps\<lparr>disableTrackFollow := True\<rparr>)
   \<and> progress (dragUpdates (exampleProps\<lparr>disableTrackFollow := True\<rparr>) exampleSlider
                  [Fin 10, Fin 20]) = Fin 0
   \<and> thumbValue (onUpdate (exampleProps\<lparr>disableTrackFollow := True\<rparr>) exampleSlider (Fin 20))
       = Fin 20
   \<and> progress (onEnd (exampleProps\<lparr>disableTrackFollow := True\<rparr>)
                  (dragUpdates (exampleProps\<lparr>disableTrackFollow := True\<rparr>) exampleSlider
                     [Fin 10, Fin 20]) (Fin 34)) = Fin 4"
  using pan_end_progress [of "exampleProps\<lparr>disableTrackFollow := True\<rparr>" exampleSlider "[Fin 10, Fin 20]"
      "Fin 20" "Fin 34"]
  by (simp add: exampleProps_def exampleSlider_def xToProgress_def stepTruthy_def
      sliderTotalValue_def jsub_def clamp_def Math_max_def Math_min_def strictNe_def strictEq_def
      trunc_def Let_def)

text \<open>
  Where \<open>xToProgress\<close> takes its formula branch, and always in the second variant, that
  value is computed from the release position \<open>y\<close>:
  \<open>y / (width - thumbWidth) * (maximumValue + minimumValue)\<close>.
\<close>

lemma pan_end_progress_from_position:
  assumes "disableTrackFollow p" "\<not> disable p"
  shows "progress (dragUpdates p s xs) = progress s
    \<and> progress (dragUpdates2 p s xs) = progress s
    \<and> thumbValue (onUpdate p s x) = clamp x (Fin 0) (jsub (width s) (thumbWidth p))
    \<and> thumbValue (onUpdate2 p s x) = clamp x (Fin 0) (jsub (width s) (thumbWidth p))
    \<and> (\<not> (stepTruthy p \<and> stepOrZero p \<le> length (markLeftArr s)) \<longrightarrow>
         progress (onEnd p (dragUpdates p s xs) y) =
           (let v = jmul (jdiv y (jsub (width s) (thumbWidth p))) (sliderTotalValue p)
            in if strictNe (jmod v (Fin 1)) (Fin 0) then Math_round v else v))
    \<and> progress (onEnd2 p (dragUpdates2 p s xs) y) =
         (let v = jmul (jdiv y (jsub (width s) (thumbWidth p))) (sliderTotalValue p)
          in if snapToInteger p \<and> strictNe (jmod v (Fin 1)) (Fin 0) then Math_round v else v)"
  using assms pan_end_progress [of p s xs x y]
  by (simp add: xToProgress_def xToProgress2_def)

text \<open>
  C10. On the stepped slider with \<open>step\<close> set this fails. With \<open>disableTrackFollow\<close>,
  four steps and bounds 0 and 4, drag updates at 10 and 50 move \<open>thumbValue\<close> to 50 and
  leave \<open>progress\<close> at 0, but the end of the pan does not assign \<open>progress\<close> from the
  release position: released at 90 or at 10, \<open>progress\<close> becomes \<open>-5\<close>, the entry of
  \<open>markLeftArr\<close> at \<open>thumbIndex\<close>, which \<open>xToProgress\<close> returns without reading the
  position. The second variant assigns \<open>72 / 17\<close> and \<open>8 / 17\<close> at the same releases.
\<close>

theorem pan_end_ignores_release_position:
  "disableTrackFollow (steppedProps\<lparr>disableTrackFollow := True\<rparr>)
   \<and> \<not> disable (steppedProps\<lparr>disableTrackFollow := True\<rparr>)
   \<and> progress (dragUpdates (steppedProps\<lparr>disableTrackFollow := True\<rparr>) steppedSlider
                  [Fin 10, Fin 50]) = Fin 0
   \<and> thumbValue (dragUpdates (steppedProps\<lparr>disableTrackFollow := True\<rparr>) steppedSlider
                  [Fin 10, Fin 50]) = Fin 50
   \<and> progress (onEnd (steppedProps\<lparr>disableTrackFollow := True\<rparr>)
                  (dragUpdates (steppedProps\<lparr>disableTrackFollow := True\<rparr>) steppedSlider
                     [Fin 10, Fin 50]) (Fin 90)) = Fin (- 5)
   \<and> progress (onEnd (steppedProps\<lparr>disableTrackFollow := True\<rparr>)
                  (dragUpdates (steppedProps\<lparr>disableTrackFollow := True\<rparr>) steppedSlider
                     [Fin 10, Fin 50]) (Fin 10)) = Fin (- 5)
   \<and> progress (onEnd2 (steppedProps\<lparr>disableTrackFollow := True\<rparr>)
                  (dragUpdates2 (steppedProps\<lparr>disableTrackFollow := True\<rparr>) steppedSlider
                     [Fin 10, Fin 50]) (Fin 90)) = Fin (72 / 17)
   \<and> progress (onEnd2 (steppedProps\<lparr>disableTrackFollow := True\<rparr>)
                  (dragUpdates2 (steppedProps\<lparr>disableTrackFollow := True\<rparr>) steppedSlider
                     [Fin 10, Fin 50]) (Fin 10)) = Fin (8 / 17)"
  by code_simp

section \<open>Arithmetic on finite numbers\<close>

lemma jsub_Fin [simp]: "jsub (Fin a) (Fin b) = Fin (a - b)"
  by (simp add: jsub_def)

lemma jge_Fin [simp]: "jge (Fin a) (Fin b) = (b \<le> a)"
  by (simp add: jge_def)

lemma clamp_Fin [simp]: "clamp (Fin v) (Fin a) (Fin b) = Fin (min (max a v) b)"
  by (simp add: clamp_def Math_max_def Math_min_def min_def max_def)

lemma sliderTotalValue_Fin:
  "minimumValue p = Fin lo \<Longrightarrow> maximumValue p = Fin hi \<Longrightarrow> sliderTotalValue p = Fin (hi + lo)"
  by (simp add: sliderTotalValue_def)

lemma floor_rat_divide_numeral [simp]:
  "\<lfloor>numeral a / numeral b :: rat\<rfloor> = numeral a div numeral b"
  by (metis floor_divide_of_int_eq of_int_numeral)

lemma floor_rat_minus_divide_numeral [simp]:
  "\<lfloor>- (numeral a / numeral b) :: rat\<rfloor> = - numeral a div numeral b"
  by (metis divide_minus_left floor_divide_of_int_eq of_int_neg_numeral of_int_numeral)

lemmas ex_defs = exampleProps_def exampleSlider_def

lemma xToProgress2_Fin:
  assumes "width s = Fin w" "thumbWidth p = Fin t" "w \<noteq> t"
    "minimumValue p = Fin lo" "maximumValue p = Fin hi"
  shows "xToProgress2 p s (Fin x) = Fin (x / (w - t) * (hi + lo))"
  using assms by (simp add: xToProgress2_def sliderTotalValue_def)

lemma xToProgress_Fin:
  assumes "step p = None" "width s = Fin w" "thumbWidth p = Fin t" "w \<noteq> t"
    "minimumValue p = Fin lo" "maximumValue p = Fin hi"
  shows "xToProgress p s (Fin x) = Fin (x / (w - t) * (hi + lo))"
  using assms by (simp add: xToProgress_def stepTruthy_def sliderTotalValue_def)

text \<open>A fraction of the sum of the bounds lies between the bounds when they enclose zero.\<close>

lemma fraction_of_total_in_bounds:
  fixes r lo hi :: rat
  assumes "0 \<le> r" "r \<le> 1" "lo \<le> 0" "0 \<le> hi"
  shows "lo \<le> r * (hi + lo) \<and> r * (hi + lo) \<le> hi"
proof -
  have a: "0 \<le> r * hi" "r * hi \<le> hi"
    using assms by (simp_all add: mult_left_le_one_le)
  have "(1 - r) * lo \<le> 0"
    using assms by (simp add: mult_nonneg_nonpos)
  then have b: "lo \<le> r * lo"
    by (simp add: algebra_simps)
  have c: "r * lo \<le> 0"
    using assms by (simp add: mult_nonneg_nonpos)
  have "r * (hi + lo) = r * hi + r * lo"
    by (simp add: algebra_simps)
  with a b c show ?thesis by linarith
qed

section \<open>Progress after a position update\<close>

text \<open>
  With \<open>step\<close> unset and \<open>disableTrackFollow\<close> false, for a track wider than the
  thumb, \<open>onActiveSlider\<close> leaves in \<open>progress\<close> the value
  \<open>x / (width - thumbWidth) * (maximumValue + minimumValue)\<close>. It lies within
  \<open>[minimumValue, maximumValue]\<close> for a position \<open>x\<close> in \<open>[0, width - thumbWidth]\<close> and
  bounds with \<open>minimumValue <= 0 <= maximumValue\<close>.
\<close>

lemma progress_within_bounds:
  assumes "step p = None" "\<not> disableTrackFollow p"
    and "width s = Fin w" "thumbWidth p = Fin t" "t < w"
    and "minimumValue p = Fin lo" "maximumValue p = Fin hi" "lo \<le> 0" "0 \<le> hi"
    and "0 \<le> x" "x \<le> w - t"
  shows "progress (onActiveSlider p s (Fin x)) = Fin (x / (w - t) * (hi + lo))
    \<and> jle (minimumValue p) (progress (onActiveSlider p s (Fin x)))
    \<and> jle (progress (onActiveSlider p s (Fin x))) (maximumValue p)"
proof -
  have "0 \<le> x / (w - t)" "x / (w - t) \<le> 1"
    using assms by simp_all
  then have "lo \<le> x / (w - t) * (hi + lo) \<and> x / (w - t) * (hi + lo) \<le> hi"
    using assms by (intro fraction_of_total_in_bounds)
  moreover have "progress (onActiveSlider p s (Fin x)) = Fin (x / (w - t) * (hi + lo))"
    using assms by (simp add: onActiveSlider_progress xToProgress_Fin)
  ultimately show ?thesis
    using assms by simp
qed

text \<open>
  At a concrete position: 34 on a track 100 wide with a thumb 15 wide and bounds 0 and 10
  gives the progress 4.
\<close>

lemma progress_within_bounds_example:
  "step exampleProps = None \<and> \<not> disableTrackFollow exampleProps
   \<and> width exampleSlider = Fin 100 \<and> thumbWidth exampleProps = Fin 15 \<and> (15 :: rat) < 100
   \<and> minimumValue exampleProps = Fin 0 \<and> maximumValue exampleProps = Fin 10
   \<and> (0 :: rat) \<le> 34 \<and> (34 :: rat) \<le> 100 - 15
   \<and> progress (onActiveSlider exampleProps exampleSlider (Fin 34)) = Fin 4"
  using progress_within_bounds [of exampleProps exampleSlider 100 15 0 10 34]
  by (simp add: ex_defs)

text \<open>
  C1. For a position in \<open>[0, width]\<close> the bound fails. On the example slider (\<open>step\<close>
  unset, \<open>disableTrackFollow\<close> false, bounds 0 and 10, track 100 wide, thumb 15 wide)
  the position 100, the width of the track, leaves \<open>progress\<close> at \<open>200 / 17\<close>, above
  the maximum: \<open>onActiveSlider\<close> clamps the position for \<open>thumbValue\<close>, which becomes
  85, and stores \<open>xToProgress\<close> of the unclamped position in \<open>progress\<close>. The value
  handed to \<open>onValueChange\<close> at the same update is clamped to 10, and a finished tap
  there rounds \<open>progress\<close> to 12.
\<close>

theorem progress_exceeds_maximum:
  "step exampleProps = None \<and> \<not> disableTrackFollow exampleProps
   \<and> jle (minimumValue exampleProps) (maximumValue exampleProps)
   \<and> jle (Fin 0) (Fin 100) \<and> jle (Fin 100) (width exampleSlider)
   \<and> progress (onActiveSlider exampleProps exampleSlider (Fin 100)) = Fin (200 / 17)
   \<and> \<not> jle (progress (onActiveSlider exampleProps exampleSlider (Fin 100)))
            (maximumValue exampleProps)
   \<and> thumbValue (onActiveSlider exampleProps exampleSlider (Fin 100)) = Fin 85
   \<and> calls (onActiveSlider exampleProps exampleSlider (Fin 100))
       = [OnValueChange (Fin 10), SetBubbleText (Fin 10), SetMarkStyles [True]]
   \<and> progress (onSingleTapEvent exampleProps exampleSlider (Fin 100) True) = Fin 12"
  by code_simp

text \<open>
  The scale by the sum of the bounds also leaves \<open>progress\<close> below a minimum above
  zero: with bounds 5 and 10 the position 0 gives the progress 0.
\<close>

lemma progress_below_minimum:
  "step (exampleProps\<lparr>minimumValue := Fin 5\<rparr>) = None
   \<and> \<not> disableTrackFollow (exampleProps\<lparr>minimumValue := Fin 5\<rparr>)
   \<and> jle (minimumValue (exampleProps\<lparr>minimumValue := Fin 5\<rparr>))
          (maximumValue (exampleProps\<lparr>minimumValue := Fin 5\<rparr>))
   \<and> jle (Fin 0) (Fin 0) \<and> jle (Fin 0) (width exampleSlider)
   \<and> progress (onActiveSlider (exampleProps\<lparr>minimumValue := Fin 5\<rparr>) exampleSlider (Fin 0))
       = Fin 0
   \<and> \<not> jle (minimumValue (exampleProps\<lparr>minimumValue := Fin 5\<rparr>))
            (progress (onActiveSlider (exampleProps\<lparr>minimumValue := Fin 5\<rparr>) exampleSlider (Fin 0)))"
  by (simp add: ex_defs onActiveSlider_progress xToProgress_def stepTruthy_def
      sliderTotalValue_def)

section \<open>The offset of the thumb\<close>

lemma progressToValue_Fin:
  assumes "width s = Fin w" "minimumValue p = Fin lo" "maximumValue p = Fin hi"
  shows "progressToValue p s (Fin v) = Fin (if hi + lo = 0 then 0 else v / (hi + lo) * w)"
  using assms by (simp add: progressToValue_def sliderTotalValue_def strictEq_def)

lemma progressToValue2_Fin:
  assumes "width s = Fin w" "thumbWidth p = Fin t" "minimumValue p = Fin lo" "maximumValue p = Fin hi"
  shows "progressToValue2 p s (Fin v) = Fin (if hi + lo = 0 then 0 else v / (hi + lo) * (w - t))"
  using assms by (simp add: progressToValue2_def sliderTotalValue_def strictEq_def)

text \<open>
  C2 (as amended). For finite progress, thumb value and bounds and a track at least as
  wide as the thumb, the \<open>translateX\<close> of \<open>animatedThumbStyle\<close> never exceeds
  \<open>width - thumbWidth\<close>. In the second variant it is at least 0, with and without
  \<open>disableTrackFollow\<close>. In the stepped slider it is at least 0 with
  \<open>disableTrackFollow\<close>, and at least the smaller of 0 and \<open>-thumbWidth / 2\<close> without:
  the lower bound given to \<open>clamp\<close> there is \<open>-thumbWidth / 2\<close>.
\<close>

theorem thumb_offset_bounds:
  assumes "width s = Fin w" "thumbWidth p = Fin t" "t \<le> w"
    and "progress s = Fin v" "thumbValue s = Fin tv"
    and "minimumValue p = Fin lo" "maximumValue p = Fin hi"
  shows "jle (Fin 0) (animatedThumbStyle2 p s)
    \<and> jle (animatedThumbStyle2 p s) (jsub (width s) (thumbWidth p))
    \<and> jle (if disableTrackFollow p then Fin 0
            else Math_min (Fin 0) (jdiv (jneg (thumbWidth p)) (Fin 2)))
           (animatedThumbStyle p s)
    \<and> jle (animatedThumbStyle p s) (jsub (width s) (thumbWidth p))"
  using assms
  by (auto simp add: animatedThumbStyle_def animatedThumbStyle2_def
      progressToValue_Fin [of s w p lo hi] progressToValue2_Fin [of s w p t lo hi] Math_min_def
      le_max_iff_disj)

text \<open>At the example slider the second variant's offset is 0, the stepped slider's is below 0.\<close>

theorem thumb_offset_bounds_witness:
  "width exampleSlider = Fin 100 \<and> thumbWidth exampleProps = Fin 15 \<and> (15 :: rat) \<le> 100
   \<and> progress exampleSlider = Fin 0 \<and> thumbValue exampleSlider = Fin 0
   \<and> minimumValue exampleProps = Fin 0 \<and> maximumValue exampleProps = Fin 10
   \<and> animatedThumbStyle2 exampleProps exampleSlider = Fin 0
   \<and> jle (Fin (- (15 / 2))) (animatedThumbStyle exampleProps exampleSlider)"
  using thumb_offset_bounds [of exampleSlider 100 exampleProps 15 0 0 0 10]
  by (simp add: ex_defs animatedThumbStyle2_def progressToValue2_def sliderTotalValue_def
      strictEq_def Math_min_def)

text \<open>
  In the stepped slider the offset is negative at progress 0: half a thumb width to the
  left of the track.
\<close>

theorem thumb_offset_negative:
  "jle (thumbWidth exampleProps) (width exampleSlider)
   \<and> animatedThumbStyle exampleProps exampleSlider = Fin (- (15 / 2))
   \<and> \<not> jle (Fin 0) (animatedThumbStyle exampleProps exampleSlider)"
  by (simp add: ex_defs animatedThumbStyle_def progressToValue_def sliderTotalValue_def
      strictEq_def)

section \<open>The value given to the callbacks\<close>

lemma shareValueToSeconds_cong:
  "width s' = width s \<Longrightarrow> thumbValue s' = thumbValue s \<Longrightarrow>
   shareValueToSeconds p s' = shareValueToSeconds p s"
  by (simp add: shareValueToSeconds_def)

lemma onActiveSlider_valueChange:
  assumes "onValueChangeGiven p"
  shows "OnValueChange
           (shareValueToSeconds p
              (s\<lparr>thumbValue := clamp x (Fin 0) (jsub (width s) (thumbWidth p))\<rparr>))
         \<in> set (calls (onActiveSlider p s x))"
proof -
  define s3 where
    "s3 = (let s1 = setScrubbing p s;
               s2 = s1\<lparr>thumbValue := clamp x (Fin 0) (jsub (width s1) (thumbWidth p))\<rparr>
           in if \<not> disableTrackFollow p then s2\<lparr>progress := xToProgress p s2 x\<rparr> else s2)"
  define s4 where "s4 = hapticCheck p x s3"
  have "width s4 = width s" "thumbValue s4 = clamp x (Fin 0) (jsub (width s) (thumbWidth p))"
    by (simp_all add: s4_def s3_def Let_def)
  then have v: "shareValueToSeconds p s4 =
      shareValueToSeconds p (s\<lparr>thumbValue := clamp x (Fin 0) (jsub (width s) (thumbWidth p))\<rparr>)"
    by (intro shareValueToSeconds_cong) simp_all
  have "onActiveSlider p s x =
      (let s5 = onSlideAcitve p (shareValueToSeconds p s4) s4
       in runOnJS (SetMarkStyles (getMarkStyles p s5)) s5)"
    by (simp add: onActiveSlider_def s3_def s4_def Let_def)
  then show ?thesis
    using assms by (simp add: Let_def onSlideAcitve_calls v)
qed

lemma shareValueToSeconds_in_bounds:
  assumes "width s = Fin w" "thumbWidth p = Fin t" "t < w" "thumbValue s = Fin tv"
    and "minimumValue p = Fin lo" "maximumValue p = Fin hi" "lo \<le> hi" "\<not> (lo = 0 \<and> hi = 0)"
  shows "jle (minimumValue p) (shareValueToSeconds p s)
    \<and> jle (shareValueToSeconds p s) (maximumValue p)"
proof (cases "hi + lo = 0")
  case False
  with assms show ?thesis
    by (simp add: shareValueToSeconds_def sliderTotalValue_def Let_def)
next
  case True
  with assms have "lo < 0" by linarith
  with True assms show ?thesis
    by (simp add: shareValueToSeconds_def sliderTotalValue_def Let_def signedInf_def clamp_def
        Math_max_def Math_min_def)
qed

text \<open>
  The value that a position update hands to \<open>onValueChange\<close> lies within the bounds,
  unless both bounds are zero.
\<close>

lemma delivered_value_in_bounds:
  assumes "width s = Fin w" "thumbWidth p = Fin t" "t < w"
    and "minimumValue p = Fin lo" "maximumValue p = Fin hi" "lo \<le> hi" "\<not> (lo = 0 \<and> hi = 0)"
  shows "jle (minimumValue p)
             (shareValueToSeconds p
                (s\<lparr>thumbValue := clamp (Fin x) (Fin 0) (jsub (width s) (thumbWidth p))\<rparr>))
    \<and> jle (shareValueToSeconds p
                (s\<lparr>thumbValue := clamp (Fin x) (Fin 0) (jsub (width s) (thumbWidth p))\<rparr>))
            (maximumValue p)"
  using assms
  by (intro shareValueToSeconds_in_bounds [where w = w and t = t and lo = lo and hi = hi]) simp_all

text \<open>
  C3. With both bounds zero (so \<open>minimumValue <= maximumValue\<close>) and a track wider than
  the thumb, a drag update at position 50 hands NaN to \<open>onValueChange\<close>, which is not
  within the bounds: \<open>shareValueToSeconds\<close> divides \<open>minimumValue\<close> by the sum of the
  bounds without the check for zero that \<open>progressToValue\<close> makes.
\<close>

theorem value_change_nan_at_zero_bounds:
  "jle (minimumValue zeroProps) (maximumValue zeroProps)
   \<and> jlt (thumbWidth zeroProps) (width exampleSlider)
   \<and> calls (onUpdate zeroProps exampleSlider (Fin 50))
       = [OnValueChange NaN, SetBubbleText NaN, SetMarkStyles [True]]
   \<and> \<not> jle (minimumValue zeroProps) NaN \<and> \<not> jle NaN (maximumValue zeroProps)"
  by (simp add: zeroProps_def ex_defs onUpdate_def onActiveSlider_def Let_def setScrubbing_def
      hapticCheck_def atEdge_def onSlideAcitve_def runOnJS_def shareValueToSeconds_def
      sliderTotalValue_def getMarkStyles_def stepOrZero_def num_def clamp_def Math_max_def
      Math_min_def xToProgress_def stepTruthy_def)

section \<open>Bounds whose sum is zero\<close>

text \<open>
  \<open>progressToValue\<close> checks for a zero sum and returns 0, in both variants;
  \<open>xToProgress\<close> (with \<open>step\<close> unset) multiplies by the sum and so returns 0 as long
  as the track and the thumb differ in width.
\<close>

lemma progressToValue_degenerate:
  "sliderTotalValue p = Fin 0 \<Longrightarrow> progressToValue p s v = Fin 0 \<and> progressToValue2 p s v = Fin 0"
  by (simp add: progressToValue_def progressToValue2_def strictEq_def)

lemma xToProgress_degenerate:
  assumes "sliderTotalValue p = Fin 0" "step p = None" "width s = Fin w" "thumbWidth p = Fin t"
    "w \<noteq> t"
  shows "xToProgress p s (Fin x) = Fin 0 \<and> xToProgress2 p s (Fin x) = Fin 0"
  using assms by (simp add: xToProgress_def xToProgress2_def stepTruthy_def)

text \<open>
  C6. \<open>shareValueToSeconds\<close> has no such check. With both bounds zero it returns NaN,
  in both variants, from the division \<open>minimumValue / sliderTotalValue()\<close>.
\<close>

theorem seconds_nan_at_zero_total:
  "sliderTotalValue zeroProps = Fin 0
   \<and> shareValueToSeconds zeroProps exampleSlider = NaN
   \<and> shareValueToSeconds2 zeroProps exampleSlider = NaN"
  by (simp add: zeroProps_def ex_defs shareValueToSeconds_def shareValueToSeconds2_def
      sliderTotalValue_def clamp_def Math_max_def Math_min_def)

section \<open>Release\<close>

lemma round_of_whole:
  fixes v :: rat
  assumes "v = of_int (trunc v)"
  shows "of_int \<lfloor>v + 1 / 2\<rfloor> = v"
proof -
  have "\<lfloor>of_int (trunc v) + (1 / 2 :: rat)\<rfloor> = trunc v"
    by (rule floor_unique) simp_all
  with assms show ?thesis by simp
qed

lemma snap_Fin:
  "(if strictNe (jmod (Fin v) (Fin 1)) (Fin 0) then Math_round (Fin v) else Fin v)
     = Fin (of_int \<lfloor>v + 1 / 2\<rfloor>)"
  using round_of_whole [of v] by (auto simp add: strictNe_def strictEq_def)

lemma nearest_integer:
  fixes v :: rat
  shows "\<bar>of_int \<lfloor>v + 1 / 2\<rfloor> - v\<bar> \<le> 1 / 2"
proof -
  have "of_int \<lfloor>v + 1 / 2\<rfloor> \<le> v + 1 / 2" "v + 1 / 2 < of_int \<lfloor>v + 1 / 2\<rfloor> + 1"
    by linarith+
  then show ?thesis by linarith
qed

lemma tap_progress:
  assumes "\<not> disable p" "\<not> disableTapEvent p"
  shows "progress (onSingleTapEvent p s x True) =
     (let v = (if disableTrackFollow p then progress s else xToProgress p s x)
      in if strictNe (jmod v (Fin 1)) (Fin 0) then Math_round v else v)"
proof -
  have "xToProgress p (runOnJS OnTap s) x = xToProgress p s x"
    by (rule xToProgress_cong) simp_all
  then show ?thesis
    using assms
    by (simp add: onSingleTapEvent_def Let_def releaseSnap_progress onActiveSlider_progress)
qed

text \<open>
  On the release of an enabled slider, \<open>step\<close> set or not, the value that \<open>progress\<close>
  holds before the rounding, when it is finite, is replaced by the nearest integer, a
  half rounded up. At the end of a pan that value is \<open>progress\<close>, or what \<open>xToProgress\<close>
  returns with \<open>disableTrackFollow\<close>; at a finished tap it is what \<open>xToProgress\<close>
  returns, or \<open>progress\<close> with \<open>disableTrackFollow\<close>.
\<close>

lemma release_rounds_progress:
  assumes "\<not> disable p"
  shows "((if disableTrackFollow p then xToProgress p s x else progress s) = Fin v \<longrightarrow>
            progress (onEnd p s x) = Fin (of_int \<lfloor>v + 1 / 2\<rfloor>))
    \<and> (\<not> disableTapEvent p \<longrightarrow>
         (if disableTrackFollow p then progress s else xToProgress p s x) = Fin v \<longrightarrow>
            progress (onSingleTapEvent p s x True) = Fin (of_int \<lfloor>v + 1 / 2\<rfloor>))
    \<and> \<bar>of_int \<lfloor>v + 1 / 2\<rfloor> - v\<bar> \<le> 1 / 2"
  using assms nearest_integer [of v] snap_Fin [of v]
  by (simp add: onEnd_progress tap_progress Let_def)

text \<open>A progress of 4.7 becomes 5 at the end of a pan, and so does a tap at position 40.\<close>

lemma release_rounds_progress_example:
  "\<not> disable exampleProps \<and> \<not> disableTapEvent exampleProps
   \<and> progress (exampleSlider\<lparr>progress := Fin (47 / 10)\<rparr>) = Fin (47 / 10)
   \<and> progress (onEnd exampleProps (exampleSlider\<lparr>progress := Fin (47 / 10)\<rparr>) (Fin 40)) = Fin 5
   \<and> xToProgress exampleProps (exampleSlider\<lparr>progress := Fin (47 / 10)\<rparr>) (Fin 40) = Fin (80 / 17)
   \<and> progress (onSingleTapEvent exampleProps (exampleSlider\<lparr>progress := Fin (47 / 10)\<rparr>) (Fin 40) True) = Fin 5"
  using release_rounds_progress [of exampleProps "exampleSlider\<lparr>progress := Fin (47 / 10)\<rparr>" "Fin 40" "47 / 10"]
    release_rounds_progress [of exampleProps "exampleSlider\<lparr>progress := Fin (47 / 10)\<rparr>" "Fin 40" "80 / 17"]
  by (simp add: ex_defs xToProgress_def stepTruthy_def sliderTotalValue_def)

text \<open>
  C4. With \<open>step\<close> set the release does not take \<open>progress\<close> to the nearest mark. On
  the slider with four steps and bounds 0 and 4, a pan or a finished tap released at
  position 90 is nearest to the last mark, whose entry in \<open>markLeftArr\<close> is 91 and whose
  value is 4; \<open>progress\<close> becomes \<open>-5\<close>, the entry of the first mark, at which
  \<open>thumbIndex\<close> still points: with \<open>step\<close> set \<open>xToProgress\<close> returns
  \<open>markLeftArr[thumbIndex]\<close>, an offset on the track, and does not read the position.
\<close>

theorem release_not_nearest_mark:
  "step steppedProps = Some 4 \<and> \<not> disable steppedProps
   \<and> nearestMark (Fin 90) (markLeftArr steppedSlider) = 4
   \<and> arrGet (markLeftArr steppedSlider) (num (nearestMark (Fin 90) (markLeftArr steppedSlider)))
       = Fin 91
   \<and> markValue steppedProps 4 (nearestMark (Fin 90) (markLeftArr steppedSlider)) = Fin 4
   \<and> progress (onEnd steppedProps (onUpdate steppedProps steppedSlider (Fin 90)) (Fin 90))
       = Fin (- 5)
   \<and> progress (onSingleTapEvent steppedProps steppedSlider (Fin 90) True) = Fin (- 5)"
  by code_simp

text \<open>
  With \<open>step\<close> unset, so that \<open>xToProgress\<close> computes from the position, the same
  releases leave \<open>progress\<close> at 4, the value of that mark.
\<close>

lemma release_with_formula_branch:
  "progress (onEnd (steppedProps\<lparr>step := None\<rparr>)
               (onUpdate (steppedProps\<lparr>step := None\<rparr>) steppedSlider (Fin 90)) (Fin 90))
     = Fin 4
   \<and> progress (onSingleTapEvent (steppedProps\<lparr>step := None\<rparr>) steppedSlider (Fin 90) True)
     = Fin 4"
  by code_simp

section \<open>The positions of the marks\<close>

lemma markLeft_Fin:
  assumes "0 < n" "width s = Fin w" "markWidth p = Fin m" "thumbWidth p = Fin t"
  shows "markLeft p s n i =
     Fin (of_int \<lfloor>w * (of_nat i / of_nat n) + 1 / 2\<rfloor> - of_nat i / of_nat n * m
          - of_int \<lfloor>t / 3 + 1 / 2\<rfloor>)"
  using assms by (simp add: markLeft_def num_def)

lemma markLeft_step:
  fixes w m :: rat
  assumes "0 < n" "of_nat n \<le> w - m"
  shows "of_int \<lfloor>w * (of_nat i / of_nat n) + 1 / 2\<rfloor> - of_nat i / of_nat n * m
       < of_int \<lfloor>w * (of_nat (Suc i) / of_nat n) + 1 / 2\<rfloor> - of_nat (Suc i) / of_nat n * m"
proof -
  define a where "a = w * (of_nat i / of_nat n) + 1 / 2"
  define d where "d = w / of_nat n"
  have n: "(0 :: rat) < of_nat n"
    using assms by simp
  have ad: "w * (of_nat (Suc i) / of_nat n) + 1 / 2 = a + d"
    by (simp add: a_def d_def add_divide_distrib distrib_left)
  have mm: "of_nat (Suc i) / of_nat n * m = of_nat i / of_nat n * m + m / of_nat n"
    by (simp add: add_divide_distrib distrib_right)
  have "m / of_nat n \<le> d - 1"
    using n assms by (simp add: d_def field_simps)
  moreover have "of_int \<lfloor>a\<rfloor> \<le> a" "a + d - 1 < of_int \<lfloor>a + d\<rfloor>"
    by linarith+
  ultimately have "of_int \<lfloor>a\<rfloor> + m / of_nat n < of_int \<lfloor>a + d\<rfloor>"
    by linarith
  then show ?thesis
    unfolding ad mm unfolding a_def [symmetric] by linarith
qed

lemma markLeftArrData_length:
  assumes "step p = Some n" "1 \<le> n"
  shows "length (markLeftArrData p s) = n + 1"
  using assms by (simp add: markLeftArrData_def stepTruthy_def stepOrZero_def)

lemma renderMarkLeft_increasing:
  assumes "0 < n" "markWidth p = Fin m" "m < w" "i < j"
  shows "jlt (renderMarkLeft p (Fin w) n i) (renderMarkLeft p (Fin w) n j)"
proof -
  define a where "a = (of_nat i :: rat) / of_nat n"
  define b where "b = (of_nat j :: rat) / of_nat n"
  have "a < b"
    using assms by (simp add: a_def b_def divide_strict_right_mono)
  moreover have "0 < w - m"
    using assms by simp
  ultimately have "a * (w - m) < b * (w - m)"
    by (rule mult_strict_right_mono)
  then have "w * a - a * m < w * b - b * m"
    by (simp add: algebra_simps)
  then show ?thesis
    using assms by (simp add: renderMarkLeft_def num_def a_def b_def)
qed

text \<open>
  C7 (as amended). For \<open>step >= 1\<close> the sequence computed for \<open>markLeftArr\<close> has
  \<open>step + 1\<close> entries, and it is strictly increasing when the track is wider than the
  marks by at least \<open>step\<close>, that is \<open>width - markWidth >= step\<close>.
\<close>

theorem mark_positions_increasing:
  assumes "step p = Some n" "1 \<le> n"
    and "width s = Fin w" "markWidth p = Fin m" "thumbWidth p = Fin t"
    and "of_nat n \<le> w - m"
  shows "length (markLeftArrData p s) = n + 1 \<and> sorted_wrt jlt (markLeftArrData p s)"
proof -
  define f where "f i = of_int \<lfloor>w * (of_nat i / of_nat n) + 1 / 2\<rfloor> - of_nat i / of_nat n * m
          - of_int \<lfloor>t / 3 + 1 / 2\<rfloor>" for i :: nat
  have n: "0 < n" using assms by simp
  have data: "markLeftArrData p s = map (\<lambda>i. Fin (f i)) [0 ..< n + 1]"
    using assms n
    by (simp add: markLeftArrData_def stepTruthy_def stepOrZero_def f_def
        markLeft_Fin [OF n assms(3) assms(4) assms(5)] del: upt_Suc)
  have "f i < f (Suc i)" for i
    using markLeft_step [OF n assms(6), of i] by (simp add: f_def)
  then have "i < j \<Longrightarrow> f i < f j" for i j
    by (rule lift_Suc_mono_less)
  then have "sorted_wrt (\<lambda>i j. f i < f j) [0 ..< n + 1]"
    by (simp add: sorted_wrt_iff_nth_less del: upt_Suc)
  then show ?thesis
    by (simp add: data sorted_wrt_map del: upt_Suc)
qed

text \<open>Four steps on a track 100 wide with marks 4 wide.\<close>

theorem mark_positions_increasing_witness:
  "step steppedProps = Some 4 \<and> (1 :: nat) \<le> 4
   \<and> width exampleSlider = Fin 100 \<and> markWidth steppedProps = Fin 4
   \<and> thumbWidth steppedProps = Fin 15 \<and> (of_nat 4 :: rat) \<le> 100 - 4
   \<and> length (markLeftArrData steppedProps exampleSlider) = 5
   \<and> sorted_wrt jlt (markLeftArrData steppedProps exampleSlider)"
  using mark_positions_increasing [of steppedProps 4 exampleSlider 100 4 15]
  by (simp add: steppedProps_def ex_defs)

text \<open>
  A track wider than the marks is not enough: with two steps on a track 5 wide and marks
  4 wide, the last two entries are equal.
\<close>

theorem mark_positions_not_increasing:
  "step (exampleProps\<lparr>step := Some 2\<rparr>) = Some 2
   \<and> jlt (markWidth (exampleProps\<lparr>step := Some 2\<rparr>)) (width (exampleSlider\<lparr>width := Fin 5\<rparr>))
   \<and> markLeftArrData (exampleProps\<lparr>step := Some 2\<rparr>) (exampleSlider\<lparr>width := Fin 5\<rparr>)
       = [Fin (- 5), Fin (- 4), Fin (- 4)]
   \<and> \<not> jlt (markLeftArrData (exampleProps\<lparr>step := Some 2\<rparr>) (exampleSlider\<lparr>width := Fin 5\<rparr>) ! 1)
            (markLeftArrData (exampleProps\<lparr>step := Some 2\<rparr>) (exampleSlider\<lparr>width := Fin 5\<rparr>) ! 2)"
  by code_simp

end
